theory Spec2Isabelle
  imports Main "HOL-Library.Word"
begin

section \<open>The netcoredbg front end: \<open>main\<close> of \<open>src/main.cpp\<close>\<close>

text \<open>
  \<open>main\<close> scans the command line, selects one of three protocol variants, binds the
  debug engine to it, constructs the stream redirect server for the non-CLI variants,
  optionally attaches to a process and enters the protocol's command loop.

  The embedding follows the function statement by statement. Everything \<open>main\<close> does to
  the outside world (writes to the standard streams, log lines, \<open>setenv\<close>, constructor
  and method calls on the engine, the protocol and the redirect server) is an
  \<open>event\<close>; a run of \<open>main\<close> is the list of its events in program order together with
  the value \<open>main\<close> returns. The \<open>#else\<close> (non-Windows) branches of the
  preprocessor conditionals are the ones modelled, on an LP64 platform: \<open>unsigned long\<close>
  has 64 bits, \<open>DWORD\<close> and \<open>HRESULT\<close> have 32, \<open>uint16_t\<close> has 16.

  The elements of \<open>argv\<close> are C strings and so contain no NUL character; a \<open>string\<close>
  of the model is the content of the C string before its terminating NUL.
\<close>

subsection \<open>Types\<close>

type_synonym DWORD = "32 word"
type_synonym HRESULT = "32 word"
type_synonym uint16_t = "16 word"

datatype exit_code = EXIT_SUCCESS | EXIT_FAILURE

datatype InterpreterType = InterpreterMI | InterpreterVSCode | InterpreterCLI

text \<open>
  Modelled from the spec: \<open>main.cpp\<close> uses \<open>OutputEvent\<close> and its channel tag and takes
  their declarations from the protocol headers it includes. The spec's data model gives
  \<open>OutputEvent: {channel: enum{StdOut, StdErr}, text: string}\<close>; \<open>main\<close> names the first
  tag \<open>OutputStdOut\<close>.
\<close>

datatype OutputType = OutputStdOut | OutputStdErr

datatype OutputEvent = OutputEvent OutputType string

text \<open>What a capture callback of the redirect server does with a captured text: one call
  on the protocol.\<close>

datatype protocol_call = EmitOutputEvent OutputEvent

datatype stream = Stdout | Stderr

text \<open>Arguments of a \<open>printf\<close>-style call, kept beside the format string as the source
  passes them.\<close>

datatype printf_arg = ArgStr string | ArgWord "32 word"

datatype event =
    Fprintf stream string "printf_arg list"
  | LOGI string "printf_arg list"
  | Call_print_help
  | Call_print_buildinfo
  | Setenv string string
  | New_ManagedDebugger
  | New_Protocol InterpreterType
  | SetDebugger
  | SetLaunchCommand string "string list"
  | EngineLogging string
  | OverrideLaunchCommand string "string list"
  | SetProtocol
  | New_IORedirectServer uint16_t "string \<Rightarrow> protocol_call" "string \<Rightarrow> protocol_call"
  | Initialize HRESULT
  | Attach DWORD HRESULT
  | ConfigurationDone HRESULT
  | CommandLoop

text \<open>
  The engine calls carry the value the call returned. \<open>Initialize\<close>, \<open>Attach\<close> and
  \<open>ConfigurationDone\<close> are methods of \<open>ManagedDebugger\<close>, which \<open>main.cpp\<close> includes; what
  they return, and everything else \<open>main\<close> takes from its surroundings, is a parameter of
  the model: the status test \<open>FAILED\<close>, whether the blocking call \<open>CommandLoop\<close> returns,
  \<open>GetTempFolder()\<close>, \<open>getpid()\<close>, \<open>PATH_MAX\<close> and the version string \<open>__VERSION\<close>.
\<close>

record environment =
  Initialize_result :: HRESULT
  Attach_result :: "DWORD \<Rightarrow> HRESULT"
  ConfigurationDone_result :: HRESULT
  FAILED :: "HRESULT \<Rightarrow> bool"
  CommandLoop_returns :: bool
  GetTempFolder :: string
  getpid :: nat
  PATH_MAX :: nat
  VERSION :: string

text \<open>The local variables of \<open>main\<close> that the argument scan assigns, with their
  initial values.\<close>

record locals =
  pidDebuggee :: DWORD
  interpreterType :: InterpreterType
  engineLogging :: bool
  logFilePath :: string
  serverPort :: uint16_t
  execFile :: string
  execArgs :: "string list"

definition initial_locals :: locals where
  "initial_locals =
     \<lparr> pidDebuggee = 0, interpreterType = InterpreterMI, engineLogging = False,
       logFilePath = [], serverPort = 0, execFile = [], execArgs = [] \<rparr>"

definition DEFAULT_SERVER_PORT :: uint16_t where
  "DEFAULT_SERVER_PORT = 4711"

subsection \<open>The C library functions the scan uses\<close>

definition isspace :: "char \<Rightarrow> bool" where
  "isspace c = (c \<in> set [CHR '' '', CHR 0x09, CHR 0x0A, CHR 0x0B, CHR 0x0C, CHR 0x0D])"

definition isdigit :: "char \<Rightarrow> bool" where
  "isdigit c = (c \<in> set ''0123456789'')"

definition digit_value :: "char \<Rightarrow> int" where
  "digit_value c = of_char c - 48"

definition ULONG_MAX :: int where
  "ULONG_MAX = 2 ^ 64 - 1"

text \<open>The value of a digit string, most significant digit first.\<close>

definition decimal_value :: "string \<Rightarrow> int" where
  "decimal_value ds = foldl (\<lambda>v c. 10 * v + digit_value c) 0 ds"

text \<open>
  \<open>strtoul(nptr, &end, 10)\<close> of the C library (ISO C 7.22.1.4): skip white space, read an
  optional sign, then the longest run of decimal digits. Without a digit nothing is
  converted: the value is 0 and \<open>end\<close> is \<open>nptr\<close> itself. A value beyond \<open>ULONG_MAX\<close>
  is \<open>ULONG_MAX\<close>; a minus sign negates the value in the unsigned type. The result is
  the value and the rest of the string from \<open>end\<close> on.
\<close>

definition strtoul :: "string \<Rightarrow> int \<times> string" where
  "strtoul nptr =
     (let s1 = dropWhile isspace nptr;
          neg = (case s1 of [] \<Rightarrow> False | c # _ \<Rightarrow> c = CHR ''-'');
          s2 = (case s1 of [] \<Rightarrow> [] | c # t \<Rightarrow> if c = CHR ''-'' \<or> c = CHR ''+'' then t else s1);
          ds = takeWhile isdigit s2;
          v = decimal_value ds
      in if ds = [] then (0, nptr)
         else (if ULONG_MAX < v then ULONG_MAX
               else if neg then (2 ^ 64 - v) mod 2 ^ 64
               else v,
               dropWhile isdigit s2))"

text \<open>\<open>strstr(s, p) == s\<close>: the string \<open>s\<close> begins with \<open>p\<close>.\<close>

definition starts_with :: "string \<Rightarrow> string \<Rightarrow> bool" where
  "starts_with p s = (take (length p) s = p)"

text \<open>The \<open>%u\<close> conversion of \<open>snprintf\<close>.\<close>

fun decimal :: "nat \<Rightarrow> string" where
  "decimal n =
     (if n < 10 then [char_of (48 + n)]
      else decimal (n div 10) @ [char_of (48 + n mod 10)])"

text \<open>The loop \<open>while (s > argv[0] && !strchr("/", s[-1])) s--\<close>, run from the end of
  \<open>argv[0]\<close>: the part of \<open>argv[0]\<close> after its last slash.\<close>

definition base_name :: "string \<Rightarrow> string" where
  "base_name p = rev (takeWhile (\<lambda>c. c \<noteq> CHR ''/'') (rev p))"

text \<open>\<open>snprintf(tmp, sizeof(tmp), "%s/%s.%u.log", ...)\<close> with \<open>char tmp[PATH_MAX]\<close>: at most
  \<open>PATH_MAX - 1\<close> characters are stored.\<close>

definition log_file_name :: "environment \<Rightarrow> string \<Rightarrow> string" where
  "log_file_name env argv0 =
     take (PATH_MAX env - 1)
       (GetTempFolder env @ ''/'' @ base_name argv0 @ ''.'' @ decimal (getpid env) @ ''.log'')"

subsection \<open>Steps of \<open>main\<close>\<close>

text \<open>
  A step of \<open>main\<close> yields the events it produced and either the value \<open>main\<close> returns
  there (\<open>Inl\<close>: a \<open>return\<close> statement was reached) or the value the next step
  continues with (\<open>Inr\<close>).
\<close>

type_synonym 'a step = "event list \<times> (exit_code + 'a)"

definition emit :: "event list \<Rightarrow> 'a step \<Rightarrow> 'a step" where
  "emit es r = (es @ fst r, snd r)"

definition and_then :: "'a step \<Rightarrow> ('a \<Rightarrow> 'b step) \<Rightarrow> 'b step" where
  "and_then r f = (case snd r of Inl c \<Rightarrow> (fst r, Inl c) | Inr x \<Rightarrow> emit (fst r) (f x))"

text \<open>
  One iteration of the argument scan \<open>for (int i = 1; i < argc; i++)\<close> either returns
  from \<open>main\<close>, leaves the loop (\<open>break\<close>), or goes on to the next iteration after
  stepping over \<open>n\<close> further arguments (the \<open>i++\<close> inside the \<open>--attach\<close> branch).
\<close>

datatype scan = Return "event list" exit_code | Break locals | Continue "event list" locals nat

definition missing_process_id :: scan where
  "missing_process_id =
     Return [Fprintf Stderr ''Error: Missing process id\<newline>'' []] EXIT_FAILURE"

definition print_version :: "environment \<Rightarrow> event list" where
  "print_version env =
     [Fprintf Stdout ''NET Core debugger %s\<newline>'' [ArgStr (VERSION env)],
      Fprintf Stdout ''\<newline>Copyright (c) 2020 Samsung Electronics Co., LTD\<newline>'' [],
      Fprintf Stdout ''Distributed under the MIT License.\<newline>'' [],
      Fprintf Stdout ''See the LICENSE file in the project root for more information.\<newline>'' []]"

text \<open>
  The body of the loop at \<open>argv[i] = a\<close>, where \<open>rest\<close> is \<open>argv[i + 1], ..., argv[argc - 1]\<close>
  and \<open>argv0\<close> is \<open>argv[0]\<close>. The tests are in the order of the source's \<open>if\<close>/\<open>else if\<close>
  chain.
\<close>

definition scan_option :: "environment \<Rightarrow> string \<Rightarrow> locals \<Rightarrow> string \<Rightarrow> string list \<Rightarrow> scan" where
  "scan_option env argv0 st a rest =
     (if a = ''--attach'' then
        (case rest of
           [] \<Rightarrow> missing_process_id
         | v # _ \<Rightarrow>
             (if snd (strtoul v) \<noteq> [] then missing_process_id
              else Continue [] (st\<lparr>pidDebuggee := of_int (fst (strtoul v))\<rparr>) 1))
      else if a = ''--interpreter=mi'' then
        Continue [] (st\<lparr>interpreterType := InterpreterMI\<rparr>) 0
      else if a = ''--interpreter=vscode'' then
        Continue [] (st\<lparr>interpreterType := InterpreterVSCode\<rparr>) 0
      else if a = ''--interpreter=cli'' then
        Continue [] (st\<lparr>interpreterType := InterpreterCLI\<rparr>) 0
      else if a = ''--engineLogging'' then
        Continue [] (st\<lparr>engineLogging := True\<rparr>) 0
      else if starts_with ''--engineLogging='' a then
        Continue []
          (st\<lparr>engineLogging := True, logFilePath := drop (length ''--engineLogging='') a\<rparr>) 0
      else if a = ''--help'' then Return [Call_print_help] EXIT_SUCCESS
      else if a = ''--buildinfo'' then Return [Call_print_buildinfo] EXIT_SUCCESS
      else if a = ''--version'' then Return (print_version env) EXIT_SUCCESS
      else if a = ''--log'' then
        Continue [Setenv ''LOG_OUTPUT'' (log_file_name env argv0)] st 0
      else if starts_with ''--log='' a then
        Continue [Setenv ''LOG_OUTPUT'' (drop (length ''--log='') a)] st 0
      else if a = ''--server'' then
        Continue [] (st\<lparr>serverPort := DEFAULT_SERVER_PORT\<rparr>) 0
      else if starts_with ''--server='' a then
        (if snd (strtoul (drop (length ''--server='') a)) \<noteq> [] then missing_process_id
         else Continue []
                (st\<lparr>serverPort := of_int (fst (strtoul (drop (length ''--server='') a)))\<rparr>) 0)
      else if a = ''--'' then
        (case rest of
           [] \<Rightarrow> Return [Fprintf Stderr ''Error: Missing program argument\<newline>'' []] EXIT_FAILURE
         | f # args \<Rightarrow> Break (st\<lparr>execFile := f, execArgs := execArgs st @ args\<rparr>))
      else Return [Fprintf Stderr ''Error: Unknown option %s\<newline>'' [ArgStr a]] EXIT_FAILURE)"

text \<open>The loop over \<open>argv[i], ..., argv[argc - 1]\<close>.\<close>

fun parse_args :: "environment \<Rightarrow> string \<Rightarrow> locals \<Rightarrow> string list \<Rightarrow> locals step" where
  "parse_args env argv0 st [] = ([], Inr st)"
| "parse_args env argv0 st (a # rest) =
     (case scan_option env argv0 st a rest of
        Return es c \<Rightarrow> (es, Inl c)
      | Break st' \<Rightarrow> ([], Inr st')
      | Continue es st' n \<Rightarrow> emit es (parse_args env argv0 st' (drop n rest)))"

definition engine_logging_unsupported :: "unit step" where
  "engine_logging_unsupported =
     ([Fprintf Stderr
         ''Error: Engine logging is only supported in VsCode interpreter mode.\<newline>'' [],
       LOGI ''Error: Engine logging is only supported in VsCode interpreter mode.'' []],
      Inl EXIT_FAILURE)"

text \<open>The \<open>switch (interpreterType)\<close>: one protocol variant is constructed, bound to the
  engine and given the launch command.\<close>

definition select_variant :: "locals \<Rightarrow> unit step" where
  "select_variant st =
     (case interpreterType st of
        InterpreterMI \<Rightarrow>
          emit [LOGI ''InterpreterMI selected'' []]
            (if engineLogging st then engine_logging_unsupported
             else ([New_Protocol InterpreterMI, SetDebugger,
                    LOGI ''SetDebugger for InterpreterMI'' []]
                   @ (if execFile st \<noteq> [] then [SetLaunchCommand (execFile st) (execArgs st)]
                      else []),
                   Inr ()))
      | InterpreterVSCode \<Rightarrow>
          ([LOGI ''InterpreterVSCode selected'' [],
            New_Protocol InterpreterVSCode, SetDebugger,
            LOGI ''SetDebugger for InterpreterVSCode'' []]
           @ (if engineLogging st then [EngineLogging (logFilePath st)] else [])
           @ (if execFile st \<noteq> [] then [OverrideLaunchCommand (execFile st) (execArgs st)]
              else []),
           Inr ())
      | InterpreterCLI \<Rightarrow>
          emit [LOGI ''InterpreterCLI selected'' []]
            (if engineLogging st then engine_logging_unsupported
             else ([New_Protocol InterpreterCLI, SetDebugger,
                    LOGI ''SetDebugger for InterpreterCLI'' []]
                   @ (if execFile st \<noteq> [] then [SetLaunchCommand (execFile st) (execArgs st)]
                      else []),
                   Inr ())))"

text \<open>The two lambdas handed to the \<open>IORedirectServer\<close> constructor, in the order of the
  source: the callback for the debuggee's standard output, then the one for its standard
  error.\<close>

definition stdout_callback :: "string \<Rightarrow> protocol_call" where
  "stdout_callback text = EmitOutputEvent (OutputEvent OutputStdOut text)"

definition stderr_callback :: "string \<Rightarrow> protocol_call" where
  "stderr_callback text = EmitOutputEvent (OutputEvent OutputStdOut text)"

definition redirect_server :: "locals \<Rightarrow> event list" where
  "redirect_server st =
     (if interpreterType st \<noteq> InterpreterCLI
      then [New_IORedirectServer (serverPort st) stdout_callback stderr_callback]
      else [])"

text \<open>The attach sequence: only the status of \<open>ConfigurationDone\<close> is kept and tested.\<close>

definition attach :: "environment \<Rightarrow> locals \<Rightarrow> unit step" where
  "attach env st =
     (if pidDebuggee st \<noteq> 0 then
        emit [Initialize (Initialize_result env),
              Attach (pidDebuggee st) (Attach_result env (pidDebuggee st)),
              ConfigurationDone (ConfigurationDone_result env)]
          (if FAILED env (ConfigurationDone_result env)
           then ([Fprintf Stderr ''Error: 0x%x Failed to attach to %i\<newline>''
                    [ArgWord (ConfigurationDone_result env), ArgWord (pidDebuggee st)]],
                 Inl EXIT_FAILURE)
           else ([], Inr ()))
      else ([], Inr ()))"

text \<open>Everything after the argument scan up to the call of the command loop.\<close>

definition bootstrap :: "environment \<Rightarrow> locals \<Rightarrow> unit step" where
  "bootstrap env st =
     emit [LOGI ''Start logging'' [], New_ManagedDebugger]
       (and_then (select_variant st) (\<lambda>_.
          emit ([SetProtocol] @ redirect_server st
                @ [LOGI ''pidDebugee %d'' [ArgWord (pidDebuggee st)]])
            (attach env st)))"

text \<open>
  A run of \<open>main\<close>: the events and the value returned, \<open>None\<close> when \<open>CommandLoop\<close>, a
  blocking call into the protocol, never returns.
\<close>

definition session :: "environment \<Rightarrow> locals \<Rightarrow> event list \<times> exit_code option" where
  "session env st =
     (case snd (bootstrap env st) of
        Inl c \<Rightarrow> (fst (bootstrap env st), Some c)
      | Inr _ \<Rightarrow> (fst (bootstrap env st) @ [CommandLoop],
                  if CommandLoop_returns env then Some EXIT_SUCCESS else None))"

definition main :: "environment \<Rightarrow> string list \<Rightarrow> event list \<times> exit_code option" where
  "main env argv =
     (let r = parse_args env (case argv of [] \<Rightarrow> [] | a # _ \<Rightarrow> a) initial_locals (drop 1 argv)
      in case snd r of
           Inl c \<Rightarrow> (fst r, Some c)
         | Inr st \<Rightarrow> (fst r @ fst (session env st), snd (session env st)))"

subsection \<open>Observations on runs\<close>

text \<open>The events a scan of the arguments can produce.\<close>

fun is_scan_event :: "event \<Rightarrow> bool" where
  "is_scan_event (Fprintf _ _ _) = True"
| "is_scan_event Call_print_help = True"
| "is_scan_event Call_print_buildinfo = True"
| "is_scan_event (Setenv _ _) = True"
| "is_scan_event _ = False"

fun events_of_scan :: "scan \<Rightarrow> event list" where
  "events_of_scan (Return es c) = es"
| "events_of_scan (Break st) = []"
| "events_of_scan (Continue es st n) = es"

text \<open>The three calls of the attach sequence.\<close>

fun is_engine_call :: "event \<Rightarrow> bool" where
  "is_engine_call (Initialize _) = True"
| "is_engine_call (Attach _ _) = True"
| "is_engine_call (ConfigurationDone _) = True"
| "is_engine_call _ = False"

text \<open>Every call that involves the engine object \<open>debugger\<close> once it exists: the two
  bindings \<open>protocol->SetDebugger(&debugger)\<close> and \<open>debugger.SetProtocol(...)\<close>, and the
  attach sequence. The declaration \<open>ManagedDebugger debugger;\<close> itself is the event
  \<open>New_ManagedDebugger\<close>.\<close>

fun is_engine_interaction :: "event \<Rightarrow> bool" where
  "is_engine_interaction SetDebugger = True"
| "is_engine_interaction SetProtocol = True"
| "is_engine_interaction e = is_engine_call e"

fun is_server_construction :: "event \<Rightarrow> bool" where
  "is_server_construction (New_IORedirectServer _ _ _) = True"
| "is_server_construction _ = False"

fun is_variant_construction :: "event \<Rightarrow> bool" where
  "is_variant_construction (New_Protocol _) = True"
| "is_variant_construction _ = False"

fun is_launch_call :: "event \<Rightarrow> bool" where
  "is_launch_call (SetLaunchCommand _ _) = True"
| "is_launch_call (OverrideLaunchCommand _ _) = True"
| "is_launch_call _ = False"

text \<open>The callbacks handed to a redirect server at its construction.\<close>

fun callbacks_of :: "event \<Rightarrow> (string \<Rightarrow> protocol_call) list" where
  "callbacks_of (New_IORedirectServer _ out err) = [out, err]"
| "callbacks_of _ = []"

text \<open>The ports of the redirect servers constructed in a run.\<close>

fun ports_of :: "event \<Rightarrow> uint16_t list" where
  "ports_of (New_IORedirectServer port _ _) = [port]"
| "ports_of _ = []"

subsection \<open>Parts of the repository outside \<open>main.cpp\<close>\<close>

text \<open>
  Modelled from the spec: \<open>IORedirectServer\<close> is implemented outside \<open>main.cpp\<close>; \<open>main\<close>
  only hands it \<open>serverPort\<close>. The spec's \<open>Start(port)\<close>: "binds and begins listening.
  Port 0/unspecified resolves to a documented default (4711)."
\<close>

definition Start_port :: "uint16_t \<Rightarrow> uint16_t" where
  "Start_port port = (if port = 0 then 4711 else port)"

text \<open>
  Modelled from the spec: \<open>SetLaunchCommand\<close> (of \<open>MIProtocol\<close> and \<open>CLIProtocol\<close>) and
  \<open>OverrideLaunchCommand\<close> (of \<open>VSCodeProtocol\<close>) are implemented outside \<open>main.cpp\<close>. The
  spec's \<open>ConfigureLaunch\<close>: "MI and CLI variants let the client's own launch command
  silently take precedence if issued, while the structured-message variant treats it as
  an override that unconditionally replaces whatever the client requests."
  \<open>launch_in_effect es client\<close> is the launch command the variant uses after the calls
  \<open>es\<close> were made on it, when the client issues the launch command \<open>client\<close> (\<open>None\<close>:
  the client issues none).
\<close>

type_synonym launch_command = "string \<times> string list"

fun launch_in_effect :: "event list \<Rightarrow> launch_command option \<Rightarrow> launch_command option" where
  "launch_in_effect [] client = client"
| "launch_in_effect (SetLaunchCommand f args # es) client =
     (case client of Some c \<Rightarrow> Some c | None \<Rightarrow> Some (f, args))"
| "launch_in_effect (OverrideLaunchCommand f args # es) client = Some (f, args)"
| "launch_in_effect (e # es) client = launch_in_effect es client"

subsection \<open>Sample surroundings\<close>

text \<open>The usual reading of the \<open>FAILED\<close> macro: a negative \<open>HRESULT\<close>.\<close>

definition negative_hresult :: "HRESULT \<Rightarrow> bool" where
  "negative_hresult hr = (sint hr < 0)"

definition S_OK :: HRESULT where
  "S_OK = 0"

definition E_FAIL :: HRESULT where
  "E_FAIL = 0x80004005"

definition constant_result :: "HRESULT \<Rightarrow> DWORD \<Rightarrow> HRESULT" where
  "constant_result hr pid = hr"

text \<open>An engine whose three calls return the given values, on a machine where the
  command loop returns.\<close>

definition sample_env :: "HRESULT \<Rightarrow> HRESULT \<Rightarrow> HRESULT \<Rightarrow> environment" where
  "sample_env i a c =
     \<lparr> Initialize_result = i, Attach_result = constant_result a, ConfigurationDone_result = c,
       FAILED = negative_hresult, CommandLoop_returns = True, GetTempFolder = ''/tmp'',
       getpid = 4242, PATH_MAX = 4096, VERSION = ''1.2.0'' \<rparr>"

section \<open>Properties of the steps\<close>

lemmas run_defs = session_def bootstrap_def select_variant_def redirect_server_def attach_def
  engine_logging_unsupported_def emit_def and_then_def

lemmas strtoul_defs = strtoul_def isspace_def isdigit_def decimal_value_def digit_value_def
  ULONG_MAX_def

subsection \<open>Sample values\<close>

lemma E_FAIL_negative: "negative_hresult E_FAIL"
  by (simp add: negative_hresult_def E_FAIL_def)

lemma S_OK_not_negative: "\<not> negative_hresult S_OK"
  by (simp add: negative_hresult_def S_OK_def)

lemma strtoul_1234: "strtoul ''1234'' = (1234, [])"
  by (simp add: strtoul_defs)

lemma strtoul_0: "strtoul ''0'' = (0, [])"
  by (simp add: strtoul_defs)

lemma strtoul_empty: "strtoul [] = (0, [])"
  by (simp add: strtoul_defs)

subsection \<open>The argument scan\<close>

lemma scan_option_events:
  "list_all is_scan_event (events_of_scan (scan_option env prog st a rest))"
  by (cases rest)
     (simp_all add: scan_option_def missing_process_id_def print_version_def starts_with_def)

lemma parse_args_events: "list_all is_scan_event (fst (parse_args env prog st args))"
proof (induction env prog st args rule: parse_args.induct)
  case (1 env prog st)
  show ?case by simp
next
  case (2 env prog st a rest)
  show ?case
  proof (cases "scan_option env prog st a rest")
    case (Return es c)
    then show ?thesis using scan_option_events[of env prog st a rest] by simp
  next
    case (Break st')
    then show ?thesis by simp
  next
    case (Continue es st' n)
    then show ?thesis
      using scan_option_events[of env prog st a rest] "2.IH"[OF Continue]
      by (simp add: emit_def)
  qed
qed

lemma scan_events_only:
  "list_all is_scan_event es \<Longrightarrow>
     CommandLoop \<notin> set es \<and> filter is_engine_call es = [] \<and>
     filter is_server_construction es = [] \<and> filter is_variant_construction es = [] \<and>
     filter is_launch_call es = [] \<and> filter is_engine_interaction es = [] \<and>
     New_ManagedDebugger \<notin> set es"
proof (induction es)
  case Nil
  show ?case by simp
next
  case (Cons e es)
  then show ?case by (cases e) simp_all
qed

text \<open>An iteration that goes on does not depend on the arguments it does not step
  over, and only the separator leaves the loop.\<close>

lemma scan_option_shape:
  "(case scan_option env prog st a rest of
      Return es c \<Rightarrow> True
    | Break st1 \<Rightarrow> a = ''--''
    | Continue es st1 n \<Rightarrow>
        n \<le> length rest \<and> scan_option env prog st a (rest @ after) = Continue es st1 n \<and>
        execFile st1 = execFile st \<and> execArgs st1 = execArgs st)"
proof (cases rest)
  case Nil
  then show ?thesis
    by (simp add: scan_option_def missing_process_id_def starts_with_def)
next
  case (Cons v r)
  then show ?thesis
    by (simp add: scan_option_def missing_process_id_def starts_with_def)
qed

lemma scan_option_append:
  "(scan_option env prog st a rest = Continue es st1 n \<longrightarrow>
      n \<le> length rest \<and> scan_option env prog st a (rest @ after) = Continue es st1 n \<and>
      execFile st1 = execFile st \<and> execArgs st1 = execArgs st) \<and>
   (scan_option env prog st a rest = Break st1 \<longrightarrow> a = ''--'')"
  using scan_option_shape[where env=env and prog=prog and st=st and a=a and rest=rest
      and after=after]
  by (auto split: scan.splits)

text \<open>A prefix of the command line that the scan passes without returning and without
  meeting the separator: the scan goes on behind it, in the state reached.\<close>

lemma parse_args_append:
  "snd (parse_args env prog st pre) = Inr st' \<Longrightarrow> ''--'' \<notin> set pre \<Longrightarrow>
   parse_args env prog st (pre @ after) =
     emit (fst (parse_args env prog st pre)) (parse_args env prog st' after)"
proof (induction env prog st pre rule: parse_args.induct)
  case (1 env prog st)
  then show ?case by (simp add: emit_def)
next
  case (2 env prog st a rest)
  show ?case
  proof (cases "scan_option env prog st a rest")
    case (Return es c)
    then show ?thesis using "2.prems" by simp
  next
    case (Break st1)
    then show ?thesis using "2.prems" scan_option_append[of env prog st a rest] by simp
  next
    case (Continue es st1 n)
    have n: "n \<le> length rest"
      and app: "scan_option env prog st a (rest @ after) = Continue es st1 n"
      using scan_option_append[of env prog st a rest es st1 n after] Continue by simp_all
    have p1: "snd (parse_args env prog st1 (drop n rest)) = Inr st'"
      using "2.prems"(1) Continue by (simp add: emit_def)
    have p2: "''--'' \<notin> set (drop n rest)"
      using "2.prems"(2) by (auto dest: in_set_dropD)
    have "parse_args env prog st1 (drop n rest @ after) =
          emit (fst (parse_args env prog st1 (drop n rest))) (parse_args env prog st' after)"
      using "2.IH"[OF Continue p1 p2] .
    then show ?thesis using Continue app n by (simp add: emit_def)
  qed
qed

lemma parse_args_keeps_launch:
  "snd (parse_args env prog st pre) = Inr st' \<Longrightarrow> ''--'' \<notin> set pre \<Longrightarrow>
   execFile st' = execFile st \<and> execArgs st' = execArgs st"
proof (induction env prog st pre rule: parse_args.induct)
  case (1 env prog st)
  then show ?case by simp
next
  case (2 env prog st a rest)
  show ?case
  proof (cases "scan_option env prog st a rest")
    case (Return es c)
    then show ?thesis using "2.prems" by simp
  next
    case (Break st1)
    then show ?thesis using "2.prems" scan_option_append[of env prog st a rest] by simp
  next
    case (Continue es st1 n)
    have keep: "execFile st1 = execFile st \<and> execArgs st1 = execArgs st"
      using scan_option_append[of env prog st a rest es st1 n "[]"] Continue by simp
    have p1: "snd (parse_args env prog st1 (drop n rest)) = Inr st'"
      using "2.prems"(1) Continue by (simp add: emit_def)
    have p2: "''--'' \<notin> set (drop n rest)"
      using "2.prems"(2) by (auto dest: in_set_dropD)
    show ?thesis using "2.IH"[OF Continue p1 p2] keep by simp
  qed
qed

lemma main_parsed:
  "parse_args env prog initial_locals args = (es, Inr st) \<Longrightarrow>
   main env (prog # args) = (es @ fst (session env st), snd (session env st))"
  by (simp add: main_def)

lemma main_returned:
  "parse_args env prog initial_locals args = (es, Inl c) \<Longrightarrow> main env (prog # args) = (es, Some c)"
  by (simp add: main_def)

subsection \<open>After the scan\<close>

lemma select_variant_result:
  "snd (select_variant st) =
     (if engineLogging st \<and> interpreterType st \<noteq> InterpreterVSCode then Inl EXIT_FAILURE
      else Inr ())"
  by (cases "interpreterType st")
     (simp_all add: select_variant_def engine_logging_unsupported_def emit_def)

lemma bootstrap_rejected:
  "engineLogging st \<Longrightarrow> interpreterType st \<noteq> InterpreterVSCode \<Longrightarrow>
   bootstrap env st =
     ([LOGI ''Start logging'' [], New_ManagedDebugger] @ fst (select_variant st),
      Inl EXIT_FAILURE)"
  using select_variant_result[of st] by (simp add: bootstrap_def emit_def and_then_def)

lemma bootstrap_selected:
  "snd (select_variant st) = Inr () \<Longrightarrow>
   bootstrap env st =
     ([LOGI ''Start logging'' [], New_ManagedDebugger] @ fst (select_variant st)
        @ [SetProtocol] @ redirect_server st
        @ [LOGI ''pidDebugee %d'' [ArgWord (pidDebuggee st)]] @ fst (attach env st),
      snd (attach env st))"
  by (simp add: bootstrap_def emit_def and_then_def)

lemma select_variant_no_engine_call: "filter is_engine_call (fst (select_variant st)) = []"
  by (cases "interpreterType st")
     (simp_all add: select_variant_def engine_logging_unsupported_def emit_def)

lemma select_variant_no_CommandLoop: "CommandLoop \<notin> set (fst (select_variant st))"
  by (cases "interpreterType st")
     (simp_all add: select_variant_def engine_logging_unsupported_def emit_def)

lemma select_variant_no_server: "filter is_server_construction (fst (select_variant st)) = []"
  by (cases "interpreterType st")
     (simp_all add: select_variant_def engine_logging_unsupported_def emit_def)

lemma redirect_server_no_engine_call: "filter is_engine_call (redirect_server st) = []"
  by (simp add: redirect_server_def)

lemma attach_nonzero:
  "pidDebuggee st \<noteq> 0 \<Longrightarrow>
   attach env st =
     ([Initialize (Initialize_result env),
       Attach (pidDebuggee st) (Attach_result env (pidDebuggee st)),
       ConfigurationDone (ConfigurationDone_result env)]
      @ (if FAILED env (ConfigurationDone_result env)
         then [Fprintf Stderr ''Error: 0x%x Failed to attach to %i\<newline>''
                 [ArgWord (ConfigurationDone_result env), ArgWord (pidDebuggee st)]]
         else []),
      if FAILED env (ConfigurationDone_result env) then Inl EXIT_FAILURE else Inr ())"
  by (simp add: attach_def emit_def)

lemma attach_zero: "pidDebuggee st = 0 \<Longrightarrow> attach env st = ([], Inr ())"
  by (simp add: attach_def)

lemma select_variant_no_interaction_when_rejected:
  "engineLogging st \<Longrightarrow> interpreterType st \<noteq> InterpreterVSCode \<Longrightarrow>
   fst (select_variant st) =
     [LOGI (if interpreterType st = InterpreterMI then ''InterpreterMI selected''
            else ''InterpreterCLI selected'') [],
      Fprintf Stderr
        ''Error: Engine logging is only supported in VsCode interpreter mode.\<newline>'' [],
      LOGI ''Error: Engine logging is only supported in VsCode interpreter mode.'' []]"
  by (cases "interpreterType st")
     (simp_all add: select_variant_def engine_logging_unsupported_def emit_def)


lemma main_of_scanned:
  assumes "snd (parse_args env prog initial_locals args) = Inr st"
  shows "\<exists>es. list_all is_scan_event es \<and>
              main env (prog # args) = (es @ fst (session env st), snd (session env st))"
proof -
  have "parse_args env prog initial_locals args =
          (fst (parse_args env prog initial_locals args), Inr st)"
    using assms by (simp add: prod_eq_iff)
  then have "main env (prog # args) =
          (fst (parse_args env prog initial_locals args) @ fst (session env st),
           snd (session env st))"
    by (rule main_parsed)
  then show ?thesis using parse_args_events[of env prog initial_locals args] by blast
qed

lemma attach_no_server: "filter is_server_construction (fst (attach env st)) = []"
  by (simp add: attach_def emit_def)

lemma session_servers:
  "filter is_server_construction (fst (session env st)) =
     (if snd (select_variant st) = Inr () then redirect_server st else [])"
proof (cases "engineLogging st \<and> interpreterType st \<noteq> InterpreterVSCode")
  case True
  then show ?thesis
    using bootstrap_rejected[of st env] select_variant_no_server[of st]
      select_variant_result[of st]
    by (simp add: session_def)
next
  case False
  then have sel: "snd (select_variant st) = Inr ()"
    using select_variant_result[of st] by simp
  show ?thesis
    using bootstrap_selected[OF sel, of env] select_variant_no_server[of st]
      attach_no_server[of env st] sel
    by (simp add: session_def redirect_server_def split: sum.split)
qed


subsection \<open>Single options and whole runs\<close>

lemma scan_server:
  "scan_option env prog st ''--server'' rest = Continue [] (st\<lparr>serverPort := 4711\<rparr>) 0"
  by (simp add: scan_option_def starts_with_def DEFAULT_SERVER_PORT_def)

lemma scan_attach_0:
  "scan_option env prog st ''--attach'' (''0'' # rest) = Continue [] (st\<lparr>pidDebuggee := 0\<rparr>) 1"
  by (simp add: scan_option_def strtoul_0)

lemma scan_attach_empty:
  "scan_option env prog st ''--attach'' ([] # rest) = Continue [] (st\<lparr>pidDebuggee := 0\<rparr>) 1"
  by (simp add: scan_option_def strtoul_empty)

lemma scan_separator:
  "scan_option env prog st ''--'' (f # args) = Break (st\<lparr>execFile := f, execArgs := execArgs st @ args\<rparr>)"
  "scan_option env prog st ''--'' [] =
     Return [Fprintf Stderr ''Error: Missing program argument\<newline>'' []] EXIT_FAILURE"
  by (simp_all add: scan_option_def starts_with_def)

lemma session_initial:
  "session env initial_locals =
     ([LOGI ''Start logging'' [], New_ManagedDebugger, LOGI ''InterpreterMI selected'' [],
       New_Protocol InterpreterMI, SetDebugger, LOGI ''SetDebugger for InterpreterMI'' [],
       SetProtocol, New_IORedirectServer 0 stdout_callback stderr_callback,
       LOGI ''pidDebugee %d'' [ArgWord 0], CommandLoop],
      if CommandLoop_returns env then Some EXIT_SUCCESS else None)"
  by (simp add: run_defs initial_locals_def)

lemma session_without_pid:
  assumes "pidDebuggee st = 0" and "snd (select_variant st) = Inr ()"
  shows "session env st =
           ([LOGI ''Start logging'' [], New_ManagedDebugger] @ fst (select_variant st)
              @ [SetProtocol] @ redirect_server st
              @ [LOGI ''pidDebugee %d'' [ArgWord 0], CommandLoop],
            if CommandLoop_returns env then Some EXIT_SUCCESS else None)"
  using bootstrap_selected[OF assms(2), of env] attach_zero[OF assms(1), of env] assms(1)
  by (simp add: session_def)

lemma session_engine_calls_without_pid:
  assumes "pidDebuggee st = 0"
  shows "filter is_engine_call (fst (session env st)) = []"
proof (cases "engineLogging st \<and> interpreterType st \<noteq> InterpreterVSCode")
  case True
  then show ?thesis
    using bootstrap_rejected[of st env] select_variant_no_engine_call[of st]
    by (simp add: session_def)
next
  case False
  then have sel: "snd (select_variant st) = Inr ()"
    using select_variant_result[of st] by simp
  show ?thesis
    using session_without_pid[OF assms sel, of env] select_variant_no_engine_call[of st]
      redirect_server_no_engine_call[of st]
    by simp
qed

text \<open>What the scan does reject, each with one line on the error stream and nothing
  else: an option it does not know, \<open>--attach\<close> as the last argument, and a value of
  \<open>--attach\<close> or \<open>--server=\<close> in which \<open>strtoul\<close> stops before the end.\<close>

lemma scan_rejects:
  "(a \<notin> set [''--attach'', ''--interpreter=mi'', ''--interpreter=vscode'', ''--interpreter=cli'',
               ''--engineLogging'', ''--help'', ''--buildinfo'', ''--version'', ''--log'',
               ''--server'', ''--''] \<and>
    \<not> starts_with ''--engineLogging='' a \<and> \<not> starts_with ''--log='' a \<and>
    \<not> starts_with ''--server='' a \<longrightarrow>
      scan_option env prog st a rest =
        Return [Fprintf Stderr ''Error: Unknown option %s\<newline>'' [ArgStr a]] EXIT_FAILURE) \<and>
   scan_option env prog st ''--attach'' [] =
     Return [Fprintf Stderr ''Error: Missing process id\<newline>'' []] EXIT_FAILURE \<and>
   (snd (strtoul v) \<noteq> [] \<longrightarrow>
      scan_option env prog st ''--attach'' (v # rest) =
        Return [Fprintf Stderr ''Error: Missing process id\<newline>'' []] EXIT_FAILURE \<and>
      scan_option env prog st (''--server='' @ v) rest =
        Return [Fprintf Stderr ''Error: Missing process id\<newline>'' []] EXIT_FAILURE)"
  by (simp add: scan_option_def missing_process_id_def starts_with_def)

lemma launch_in_effect_filter:
  "launch_in_effect es client = launch_in_effect (filter is_launch_call es) client"
proof (induction es)
  case Nil
  show ?case by simp
next
  case (Cons e es)
  then show ?case by (cases e) simp_all
qed

lemma callbacks_of_filter:
  "concat (map callbacks_of es) = concat (map callbacks_of (filter is_server_construction es))"
proof (induction es)
  case Nil
  show ?case by simp
next
  case (Cons e es)
  then show ?case by (cases e) simp_all
qed

lemma select_variant_launch_calls:
  "filter is_launch_call (fst (select_variant st)) =
     (if execFile st \<noteq> [] \<and> snd (select_variant st) = Inr ()
      then [if interpreterType st = InterpreterVSCode
            then OverrideLaunchCommand (execFile st) (execArgs st)
            else SetLaunchCommand (execFile st) (execArgs st)]
      else [])"
  by (cases "interpreterType st")
     (simp_all add: select_variant_def engine_logging_unsupported_def emit_def)

lemma attach_no_launch_call: "filter is_launch_call (fst (attach env st)) = []"
  by (simp add: attach_def emit_def)

lemma bootstrap_launch_calls:
  "filter is_launch_call (fst (bootstrap env st)) = filter is_launch_call (fst (select_variant st))"
proof (cases "engineLogging st \<and> interpreterType st \<noteq> InterpreterVSCode")
  case True
  then show ?thesis using bootstrap_rejected[of st env] by simp
next
  case False
  then have sel: "snd (select_variant st) = Inr ()"
    using select_variant_result[of st] by simp
  show ?thesis
    using bootstrap_selected[OF sel, of env] attach_no_launch_call[of env st]
    by (simp add: redirect_server_def)
qed

lemma attach_no_CommandLoop: "CommandLoop \<notin> set (fst (attach env st))"
  by (simp add: attach_def emit_def)

lemma bootstrap_no_CommandLoop: "CommandLoop \<notin> set (fst (bootstrap env st))"
proof (cases "engineLogging st \<and> interpreterType st \<noteq> InterpreterVSCode")
  case True
  then show ?thesis
    using bootstrap_rejected[of st env] select_variant_no_CommandLoop[of st] by simp
next
  case False
  then have sel: "snd (select_variant st) = Inr ()"
    using select_variant_result[of st] by simp
  show ?thesis
    using bootstrap_selected[OF sel, of env] attach_no_CommandLoop[of env st]
      select_variant_no_CommandLoop[of st]
    by (simp add: redirect_server_def)
qed

lemma takeWhile_until:
  "x \<notin> set xs \<Longrightarrow>
   takeWhile (\<lambda>e. e \<noteq> x) (xs @ [x]) = xs \<and> takeWhile (\<lambda>e. e \<noteq> x) xs = xs"
  by (induction xs) auto

lemma before_CommandLoop:
  "takeWhile (\<lambda>e. e \<noteq> CommandLoop) (fst (session env st)) = fst (bootstrap env st)"
  using takeWhile_until[OF bootstrap_no_CommandLoop[of env st]]
  by (simp add: session_def split: sum.split)

lemma session_launch_calls:
  "filter is_launch_call (fst (session env st)) = filter is_launch_call (fst (select_variant st))"
  using bootstrap_launch_calls[of env st] by (simp add: session_def split: sum.split)

section \<open>The claims\<close>

subsection \<open>C1: the attach sequence\<close>

text \<open>
  C1, as the code has it. With a non-zero attach PID the attach step calls \<open>Initialize()\<close>,
  \<open>Attach(pid)\<close> and \<open>ConfigurationDone()\<close> in this order, and a run that selected its
  protocol variant makes exactly these three engine calls. When \<open>ConfigurationDone\<close>
  returns a failure status, \<open>main\<close> returns \<open>EXIT_FAILURE\<close> and the command loop is never
  called, for a scanned state and for every command line that scans to it. The values
  returned by \<open>Initialize\<close> and \<open>Attach\<close> are not looked at: when \<open>ConfigurationDone\<close>
  does not fail, such a run enters the command loop.
\<close>

theorem attach_sequence:
  assumes "pidDebuggee st \<noteq> 0"
  shows "fst (attach env st) =
           [Initialize (Initialize_result env),
            Attach (pidDebuggee st) (Attach_result env (pidDebuggee st)),
            ConfigurationDone (ConfigurationDone_result env)]
           @ (if FAILED env (ConfigurationDone_result env)
              then [Fprintf Stderr ''Error: 0x%x Failed to attach to %i\<newline>''
                      [ArgWord (ConfigurationDone_result env), ArgWord (pidDebuggee st)]]
              else [])
         \<and> (snd (select_variant st) = Inr () \<longrightarrow>
              filter is_engine_call (fst (session env st)) =
                [Initialize (Initialize_result env),
                 Attach (pidDebuggee st) (Attach_result env (pidDebuggee st)),
                 ConfigurationDone (ConfigurationDone_result env)])
         \<and> (FAILED env (ConfigurationDone_result env) \<longrightarrow>
              snd (session env st) = Some EXIT_FAILURE \<and>
              CommandLoop \<notin> set (fst (session env st)) \<and>
              (\<forall>prog args. snd (parse_args env prog initial_locals args) = Inr st \<longrightarrow>
                 snd (main env (prog # args)) = Some EXIT_FAILURE \<and>
                 CommandLoop \<notin> set (fst (main env (prog # args)))))
         \<and> (\<not> FAILED env (ConfigurationDone_result env) \<and> snd (select_variant st) = Inr () \<longrightarrow>
              CommandLoop \<in> set (fst (session env st)))"
proof -
  have calls: "fst (attach env st) =
           [Initialize (Initialize_result env),
            Attach (pidDebuggee st) (Attach_result env (pidDebuggee st)),
            ConfigurationDone (ConfigurationDone_result env)]
           @ (if FAILED env (ConfigurationDone_result env)
              then [Fprintf Stderr ''Error: 0x%x Failed to attach to %i\<newline>''
                      [ArgWord (ConfigurationDone_result env), ArgWord (pidDebuggee st)]]
              else [])"
    using attach_nonzero[OF assms, of env] by simp
  have order: "filter is_engine_call (fst (session env st)) =
                [Initialize (Initialize_result env),
                 Attach (pidDebuggee st) (Attach_result env (pidDebuggee st)),
                 ConfigurationDone (ConfigurationDone_result env)]"
    if sel: "snd (select_variant st) = Inr ()"
    using bootstrap_selected[OF sel, of env] attach_nonzero[OF assms, of env]
      select_variant_no_engine_call[of st] redirect_server_no_engine_call[of st]
    by (simp add: session_def)
  have failure: "snd (session env st) = Some EXIT_FAILURE \<and>
                 CommandLoop \<notin> set (fst (session env st))"
    if f: "FAILED env (ConfigurationDone_result env)"
  proof (cases "engineLogging st \<and> interpreterType st \<noteq> InterpreterVSCode")
    case True
    then show ?thesis
      using bootstrap_rejected[of st env] select_variant_no_CommandLoop[of st]
      by (simp add: session_def)
  next
    case False
    then have "snd (select_variant st) = Inr ()"
      using select_variant_result[of st] by simp
    then show ?thesis
      using bootstrap_selected[of st env] attach_nonzero[OF assms, of env] f
        select_variant_no_CommandLoop[of st]
      by (simp add: session_def redirect_server_def)
  qed
  have whole: "snd (main env (prog # args)) = Some EXIT_FAILURE \<and>
               CommandLoop \<notin> set (fst (main env (prog # args)))"
    if f: "FAILED env (ConfigurationDone_result env)"
      and p: "snd (parse_args env prog initial_locals args) = Inr st" for prog args
  proof -
    have "parse_args env prog initial_locals args =
            (fst (parse_args env prog initial_locals args), Inr st)"
      using p by (simp add: prod_eq_iff)
    then have m: "main env (prog # args) =
            (fst (parse_args env prog initial_locals args) @ fst (session env st),
             snd (session env st))"
      by (rule main_parsed)
    have "CommandLoop \<notin> set (fst (parse_args env prog initial_locals args))"
      using scan_events_only[OF parse_args_events[of env prog initial_locals args]] by simp
    then show ?thesis using m failure[OF f] by simp
  qed
  have entered: "CommandLoop \<in> set (fst (session env st))"
    if "\<not> FAILED env (ConfigurationDone_result env) \<and> snd (select_variant st) = Inr ()"
    using that bootstrap_selected[of st env] attach_nonzero[OF assms, of env]
    by (simp add: session_def)
  show ?thesis using calls order failure whole entered by blast
qed

theorem attach_sequence_witness:
  "pidDebuggee (initial_locals\<lparr>pidDebuggee := 1234\<rparr>) \<noteq> 0 \<and>
   FAILED (sample_env S_OK S_OK E_FAIL) (ConfigurationDone_result (sample_env S_OK S_OK E_FAIL)) \<and>
   snd (session (sample_env S_OK S_OK E_FAIL) (initial_locals\<lparr>pidDebuggee := 1234\<rparr>))
     = Some EXIT_FAILURE \<and>
   CommandLoop \<notin> set (fst (session (sample_env S_OK S_OK E_FAIL)
                             (initial_locals\<lparr>pidDebuggee := 1234\<rparr>))) \<and>
   filter is_engine_call (fst (session (sample_env S_OK S_OK E_FAIL)
                                 (initial_locals\<lparr>pidDebuggee := 1234\<rparr>))) =
     [Initialize S_OK, Attach 1234 S_OK, ConfigurationDone E_FAIL] \<and>
   snd (main (sample_env S_OK S_OK E_FAIL) [''netcoredbg'', ''--attach'', ''1234''])
     = Some EXIT_FAILURE"
proof -
  have pid: "pidDebuggee (initial_locals\<lparr>pidDebuggee := 1234\<rparr>) \<noteq> 0"
    by (simp add: initial_locals_def)
  have failed: "FAILED (sample_env S_OK S_OK E_FAIL)
                  (ConfigurationDone_result (sample_env S_OK S_OK E_FAIL))"
    by (simp add: sample_env_def E_FAIL_negative)
  have sel: "snd (select_variant (initial_locals\<lparr>pidDebuggee := 1234\<rparr>)) = Inr ()"
    by (simp add: select_variant_result initial_locals_def)
  have scanned: "snd (parse_args (sample_env S_OK S_OK E_FAIL) ''netcoredbg'' initial_locals
                        [''--attach'', ''1234''])
                 = Inr (initial_locals\<lparr>pidDebuggee := 1234\<rparr>)"
    by (simp add: scan_option_def strtoul_1234 emit_def)
  show ?thesis
    using attach_sequence[OF pid, of "sample_env S_OK S_OK E_FAIL"] pid failed sel scanned
    by (simp add: sample_env_def constant_result_def)
qed

text \<open>
  C1 as stated fails: an engine whose \<open>Initialize\<close> and \<open>Attach\<close> both return the failure
  status \<open>E_FAIL\<close> while \<open>ConfigurationDone\<close> returns \<open>S_OK\<close>. \<open>main\<close> enters the command loop
  and returns \<open>EXIT_SUCCESS\<close>.
\<close>

theorem attach_ignores_early_failures:
  "FAILED (sample_env E_FAIL E_FAIL S_OK) (Initialize_result (sample_env E_FAIL E_FAIL S_OK)) \<and>
   FAILED (sample_env E_FAIL E_FAIL S_OK) (Attach_result (sample_env E_FAIL E_FAIL S_OK) 1234) \<and>
   main (sample_env E_FAIL E_FAIL S_OK) [''netcoredbg'', ''--attach'', ''1234''] =
     ([LOGI ''Start logging'' [], New_ManagedDebugger, LOGI ''InterpreterMI selected'' [],
       New_Protocol InterpreterMI, SetDebugger, LOGI ''SetDebugger for InterpreterMI'' [],
       SetProtocol, New_IORedirectServer 0 stdout_callback stderr_callback,
       LOGI ''pidDebugee %d'' [ArgWord 1234],
       Initialize E_FAIL, Attach 1234 E_FAIL, ConfigurationDone S_OK, CommandLoop],
      Some EXIT_SUCCESS)"
  by (simp add: main_def scan_option_def strtoul_1234 initial_locals_def run_defs sample_env_def
      constant_result_def E_FAIL_negative S_OK_not_negative)

subsection \<open>C2: engine logging and the interpreter mode\<close>

text \<open>
  C2. When the scan leaves engine logging requested and the interpreter is not the VSCode
  one, \<open>main\<close> writes the error to the error stream and returns \<open>EXIT_FAILURE\<close>; the
  events of the run after the scan are exactly the five listed, so no protocol variant is
  constructed and no call involving the engine (binding or attach sequence) is made; the
  declaration of the engine object precedes the test. With the VSCode interpreter the
  variant is constructed and \<open>EngineLogging(logFilePath)\<close> is called on it, and the error is
  not written.
\<close>

theorem engine_logging_only_in_vscode:
  "(engineLogging st \<and> interpreterType st \<noteq> InterpreterVSCode \<longrightarrow>
      session env st =
        ([LOGI ''Start logging'' [], New_ManagedDebugger,
          LOGI (if interpreterType st = InterpreterMI then ''InterpreterMI selected''
                else ''InterpreterCLI selected'') [],
          Fprintf Stderr
            ''Error: Engine logging is only supported in VsCode interpreter mode.\<newline>'' [],
          LOGI ''Error: Engine logging is only supported in VsCode interpreter mode.'' []],
         Some EXIT_FAILURE) \<and>
      filter is_engine_interaction (fst (session env st)) = [] \<and>
      filter is_variant_construction (fst (session env st)) = [] \<and>
      (\<forall>prog args. snd (parse_args env prog initial_locals args) = Inr st \<longrightarrow>
         snd (main env (prog # args)) = Some EXIT_FAILURE \<and>
         filter is_engine_interaction (fst (main env (prog # args))) = [] \<and>
         filter is_variant_construction (fst (main env (prog # args))) = [])) \<and>
   (engineLogging st \<and> interpreterType st = InterpreterVSCode \<longrightarrow>
      select_variant st =
        ([LOGI ''InterpreterVSCode selected'' [], New_Protocol InterpreterVSCode, SetDebugger,
          LOGI ''SetDebugger for InterpreterVSCode'' [], EngineLogging (logFilePath st)]
         @ (if execFile st \<noteq> [] then [OverrideLaunchCommand (execFile st) (execArgs st)]
            else []),
         Inr ()) \<and>
      EngineLogging (logFilePath st) \<in> set (fst (session env st)) \<and>
      Fprintf Stderr
        ''Error: Engine logging is only supported in VsCode interpreter mode.\<newline>'' []
        \<notin> set (fst (session env st)))"
proof (intro conjI impI)
  assume a: "engineLogging st \<and> interpreterType st \<noteq> InterpreterVSCode"
  show s: "session env st =
        ([LOGI ''Start logging'' [], New_ManagedDebugger,
          LOGI (if interpreterType st = InterpreterMI then ''InterpreterMI selected''
                else ''InterpreterCLI selected'') [],
          Fprintf Stderr
            ''Error: Engine logging is only supported in VsCode interpreter mode.\<newline>'' [],
          LOGI ''Error: Engine logging is only supported in VsCode interpreter mode.'' []],
         Some EXIT_FAILURE)"
    using a bootstrap_rejected[of st env] select_variant_no_interaction_when_rejected[of st]
    by (simp add: session_def)
  show "filter is_engine_interaction (fst (session env st)) = []"
    unfolding s by simp
  show "filter is_variant_construction (fst (session env st)) = []"
    unfolding s by simp
  show "\<forall>prog args. snd (parse_args env prog initial_locals args) = Inr st \<longrightarrow>
         snd (main env (prog # args)) = Some EXIT_FAILURE \<and>
         filter is_engine_interaction (fst (main env (prog # args))) = [] \<and>
         filter is_variant_construction (fst (main env (prog # args))) = []"
  proof (intro allI impI)
    fix prog args
    assume p: "snd (parse_args env prog initial_locals args) = Inr st"
    obtain es where es: "list_all is_scan_event es"
      and m: "main env (prog # args) = (es @ fst (session env st), snd (session env st))"
      using main_of_scanned[OF p] by blast
    show "snd (main env (prog # args)) = Some EXIT_FAILURE \<and>
         filter is_engine_interaction (fst (main env (prog # args))) = [] \<and>
         filter is_variant_construction (fst (main env (prog # args))) = []"
      unfolding m s using scan_events_only[OF es] by simp
  qed
next
  assume a: "engineLogging st \<and> interpreterType st = InterpreterVSCode"
  show sv: "select_variant st =
        ([LOGI ''InterpreterVSCode selected'' [], New_Protocol InterpreterVSCode, SetDebugger,
          LOGI ''SetDebugger for InterpreterVSCode'' [], EngineLogging (logFilePath st)]
         @ (if execFile st \<noteq> [] then [OverrideLaunchCommand (execFile st) (execArgs st)]
            else []),
         Inr ())"
    using a by (simp add: select_variant_def)
  have b: "bootstrap env st =
     ([LOGI ''Start logging'' [], New_ManagedDebugger] @ fst (select_variant st)
        @ [SetProtocol] @ redirect_server st
        @ [LOGI ''pidDebugee %d'' [ArgWord (pidDebuggee st)]] @ fst (attach env st),
      snd (attach env st))"
    using sv by (intro bootstrap_selected) simp
  show "EngineLogging (logFilePath st) \<in> set (fst (session env st))"
    using b sv by (simp add: session_def split: sum.split)
  show "Fprintf Stderr
        ''Error: Engine logging is only supported in VsCode interpreter mode.\<newline>'' []
        \<notin> set (fst (session env st))"
    using b sv a by (simp add: session_def redirect_server_def attach_def emit_def split: sum.split)
qed

theorem engine_logging_only_in_vscode_witness:
  "main (sample_env S_OK S_OK S_OK) [''netcoredbg'', ''--interpreter=cli'', ''--engineLogging''] =
     ([LOGI ''Start logging'' [], New_ManagedDebugger, LOGI ''InterpreterCLI selected'' [],
       Fprintf Stderr
         ''Error: Engine logging is only supported in VsCode interpreter mode.\<newline>'' [],
       LOGI ''Error: Engine logging is only supported in VsCode interpreter mode.'' []],
      Some EXIT_FAILURE) \<and>
   select_variant (initial_locals\<lparr>interpreterType := InterpreterVSCode, engineLogging := True,
                                  logFilePath := ''/tmp/engine.log''\<rparr>) =
     ([LOGI ''InterpreterVSCode selected'' [], New_Protocol InterpreterVSCode, SetDebugger,
       LOGI ''SetDebugger for InterpreterVSCode'' [], EngineLogging ''/tmp/engine.log''],
      Inr ())"
proof -
  let ?cli = "initial_locals\<lparr>interpreterType := InterpreterCLI, engineLogging := True\<rparr>"
  let ?vs = "initial_locals\<lparr>interpreterType := InterpreterVSCode, engineLogging := True,
                                  logFilePath := ''/tmp/engine.log''\<rparr>"
  have scanned: "parse_args (sample_env S_OK S_OK S_OK) ''netcoredbg'' initial_locals
                   [''--interpreter=cli'', ''--engineLogging''] = ([], Inr ?cli)"
    by (simp add: scan_option_def emit_def)
  have h1: "engineLogging ?cli \<and> interpreterType ?cli \<noteq> InterpreterVSCode"
    by (simp add: initial_locals_def)
  have h2: "engineLogging ?vs \<and> interpreterType ?vs = InterpreterVSCode"
    by (simp add: initial_locals_def)
  show ?thesis
    using engine_logging_only_in_vscode[of ?cli "sample_env S_OK S_OK S_OK"]
      engine_logging_only_in_vscode[of ?vs "sample_env S_OK S_OK S_OK"]
      h1 h2 main_parsed[OF scanned]
    by (simp add: initial_locals_def)
qed

subsection \<open>C3: the redirect server and the interpreter mode\<close>

text \<open>
  C3, as the code has it. With the CLI interpreter no redirect server is constructed, in
  the redirect step and in the whole run, whatever \<open>serverPort\<close> is. With the MI and the
  VSCode interpreter the redirect step constructs one on \<open>serverPort\<close>, whatever the port,
  and every run that selected its protocol variant constructs exactly this one server.
  The runs that do not are the MI runs with engine logging requested, which end at the
  configuration error before the redirect step: a run constructs no server exactly when
  the interpreter is CLI or engine logging was requested outside the VSCode interpreter.
\<close>

theorem redirect_server_unless_cli:
  "(interpreterType st = InterpreterCLI \<longrightarrow>
      redirect_server st = [] \<and>
      filter is_server_construction (fst (session env st)) = [] \<and>
      (\<forall>prog args. snd (parse_args env prog initial_locals args) = Inr st \<longrightarrow>
         filter is_server_construction (fst (main env (prog # args))) = [])) \<and>
   (interpreterType st \<noteq> InterpreterCLI \<longrightarrow>
      redirect_server st = [New_IORedirectServer (serverPort st) stdout_callback stderr_callback] \<and>
      (snd (select_variant st) = Inr () \<longrightarrow>
         filter is_server_construction (fst (session env st)) =
           [New_IORedirectServer (serverPort st) stdout_callback stderr_callback] \<and>
         (\<forall>prog args. snd (parse_args env prog initial_locals args) = Inr st \<longrightarrow>
            filter is_server_construction (fst (main env (prog # args))) =
              [New_IORedirectServer (serverPort st) stdout_callback stderr_callback]))) \<and>
   filter is_server_construction (fst (session env st)) =
     (if interpreterType st = InterpreterCLI \<or>
         (engineLogging st \<and> interpreterType st = InterpreterMI)
      then []
      else [New_IORedirectServer (serverPort st) stdout_callback stderr_callback])"
proof -
  have whole: "filter is_server_construction (fst (main env (prog # args))) =
               filter is_server_construction (fst (session env st))"
    if p: "snd (parse_args env prog initial_locals args) = Inr st" for prog args
  proof -
    obtain es where es: "list_all is_scan_event es"
      and m: "main env (prog # args) = (es @ fst (session env st), snd (session env st))"
      using main_of_scanned[OF p] by blast
    show ?thesis using m scan_events_only[OF es] by simp
  qed
  have exact: "filter is_server_construction (fst (session env st)) =
     (if interpreterType st = InterpreterCLI \<or>
         (engineLogging st \<and> interpreterType st = InterpreterMI)
      then []
      else [New_IORedirectServer (serverPort st) stdout_callback stderr_callback])"
    using session_servers[of env st] select_variant_result[of st]
    by (cases "interpreterType st") (simp_all add: redirect_server_def)
  show ?thesis
    using whole session_servers[of env st] exact by (simp add: redirect_server_def)
qed

theorem redirect_server_unless_cli_witness:
  "filter is_server_construction
     (fst (main (sample_env S_OK S_OK S_OK) [''netcoredbg'', ''--interpreter=cli'', ''--server=80'']))
     = [] \<and>
   filter is_server_construction
     (fst (main (sample_env S_OK S_OK S_OK) [''netcoredbg'', ''--interpreter=vscode'', ''--server'']))
     = [New_IORedirectServer 4711 stdout_callback stderr_callback]"
proof -
  let ?cli = "initial_locals\<lparr>interpreterType := InterpreterCLI, serverPort := 80\<rparr>"
  let ?vs = "initial_locals\<lparr>interpreterType := InterpreterVSCode, serverPort := 4711\<rparr>"
  have s80: "strtoul ''80'' = (80, [])" by (simp add: strtoul_defs)
  have p1: "snd (parse_args (sample_env S_OK S_OK S_OK) ''netcoredbg'' initial_locals
                   [''--interpreter=cli'', ''--server=80'']) = Inr ?cli"
    by (simp add: scan_option_def emit_def starts_with_def s80)
  have p2: "snd (parse_args (sample_env S_OK S_OK S_OK) ''netcoredbg'' initial_locals
                   [''--interpreter=vscode'', ''--server'']) = Inr ?vs"
    by (simp add: scan_option_def emit_def starts_with_def DEFAULT_SERVER_PORT_def)
  have h1: "interpreterType ?cli = InterpreterCLI" by (simp add: initial_locals_def)
  have h2: "interpreterType ?vs \<noteq> InterpreterCLI" by (simp add: initial_locals_def)
  have h3: "snd (select_variant ?vs) = Inr ()"
    by (simp add: select_variant_result initial_locals_def)
  show ?thesis
    using redirect_server_unless_cli[of ?cli "sample_env S_OK S_OK S_OK"]
      redirect_server_unless_cli[of ?vs "sample_env S_OK S_OK S_OK"] h1 h2 h3 p1 p2
    by (simp add: initial_locals_def)
qed

text \<open>
  C3 as stated fails: \<open>--engineLogging\<close> alone leaves the interpreter at MI, and the run
  ends at the configuration error of the \<open>switch\<close> with \<open>EXIT_FAILURE\<close>, before the
  redirect step. No redirect server is constructed in this MI run.
\<close>

theorem mi_with_engine_logging_constructs_no_server:
  "snd (parse_args (sample_env S_OK S_OK S_OK) ''netcoredbg'' initial_locals [''--engineLogging''])
     = Inr (initial_locals\<lparr>engineLogging := True\<rparr>) \<and>
   interpreterType (initial_locals\<lparr>engineLogging := True\<rparr>) = InterpreterMI \<and>
   main (sample_env S_OK S_OK S_OK) [''netcoredbg'', ''--engineLogging''] =
     ([LOGI ''Start logging'' [], New_ManagedDebugger, LOGI ''InterpreterMI selected'' [],
       Fprintf Stderr
         ''Error: Engine logging is only supported in VsCode interpreter mode.\<newline>'' [],
       LOGI ''Error: Engine logging is only supported in VsCode interpreter mode.'' []],
      Some EXIT_FAILURE) \<and>
   filter is_server_construction
     (fst (main (sample_env S_OK S_OK S_OK) [''netcoredbg'', ''--engineLogging''])) = []"
  by (simp add: main_def scan_option_def initial_locals_def run_defs)

subsection \<open>C5: the default server port\<close>

text \<open>
  C5. \<open>DEFAULT_SERVER_PORT\<close> is 4711 and the bare \<open>--server\<close> flag sets \<open>serverPort\<close> to it,
  so a run with the bare flag constructs the redirect server on port 4711. Without a
  server option \<open>serverPort\<close> keeps its initial value 0, which \<open>main\<close> hands to the redirect
  server unchanged; the server's \<open>Start\<close>, as the spec describes it, resolves port 0 to
  4711.
\<close>

theorem default_server_port:
  "DEFAULT_SERVER_PORT = 4711 \<and>
   serverPort initial_locals = 0 \<and>
   Start_port 0 = 4711 \<and>
   parse_args env prog st (''--server'' # rest) = parse_args env prog (st\<lparr>serverPort := 4711\<rparr>) rest \<and>
   map Start_port (concat (map ports_of (redirect_server st))) =
     (if interpreterType st = InterpreterCLI then []
      else [if serverPort st = 0 then 4711 else serverPort st]) \<and>
   concat (map ports_of (fst (main env [prog, ''--server'']))) = [4711] \<and>
   concat (map ports_of (fst (main env [prog]))) = [0] \<and>
   map Start_port (concat (map ports_of (fst (main env [prog])))) = [4711]"
proof -
  have a: "parse_args env prog st (''--server'' # rest) = parse_args env prog (st\<lparr>serverPort := 4711\<rparr>) rest"
    by (simp add: scan_server emit_def)
  have b: "concat (map ports_of (fst (main env [prog, ''--server'']))) = [4711]"
    by (simp add: main_def scan_server emit_def run_defs initial_locals_def)
  have c: "concat (map ports_of (fst (main env [prog]))) = [0]"
    by (simp add: main_def session_initial)
  show ?thesis using a b c
    by (simp add: DEFAULT_SERVER_PORT_def initial_locals_def Start_port_def redirect_server_def)
qed

theorem default_server_port_witness:
  "concat (map ports_of (fst (main (sample_env S_OK S_OK S_OK) [''netcoredbg'', ''--server''])))
     = [4711] \<and>
   map Start_port (concat (map ports_of (fst (main (sample_env S_OK S_OK S_OK) [''netcoredbg'']))))
     = [4711]"
  using default_server_port[of "sample_env S_OK S_OK S_OK" "''netcoredbg''"] by simp

subsection \<open>C6: rejected command lines\<close>

text \<open>
  C6 does not hold on the code for \<open>--attach\<close> followed by an empty argument. \<open>strtoul\<close>
  converts nothing, leaves \<open>err\<close> at the terminating NUL and returns 0, so the test
  \<open>*err != 0\<close> passes: nothing is written to the error stream, \<open>pidDebuggee\<close> is 0, the MI
  variant, the engine and the redirect server are constructed and the command loop is
  entered.
\<close>

theorem attach_accepts_empty_process_id:
  "main env [prog, ''--attach'', ''''] =
     ([LOGI ''Start logging'' [], New_ManagedDebugger, LOGI ''InterpreterMI selected'' [],
       New_Protocol InterpreterMI, SetDebugger, LOGI ''SetDebugger for InterpreterMI'' [],
       SetProtocol, New_IORedirectServer 0 stdout_callback stderr_callback,
       LOGI ''pidDebugee %d'' [ArgWord 0], CommandLoop],
      if CommandLoop_returns env then Some EXIT_SUCCESS else None)"
proof -
  have "initial_locals\<lparr>pidDebuggee := 0\<rparr> = initial_locals"
    by (simp add: initial_locals_def)
  then show ?thesis
    by (simp add: main_def scan_attach_empty emit_def session_initial)
qed

theorem attach_accepts_empty_process_id_witness:
  "main (sample_env S_OK S_OK S_OK) [''netcoredbg'', ''--attach'', ''''] =
     ([LOGI ''Start logging'' [], New_ManagedDebugger, LOGI ''InterpreterMI selected'' [],
       New_Protocol InterpreterMI, SetDebugger, LOGI ''SetDebugger for InterpreterMI'' [],
       SetProtocol, New_IORedirectServer 0 stdout_callback stderr_callback,
       LOGI ''pidDebugee %d'' [ArgWord 0], CommandLoop],
      Some EXIT_SUCCESS)"
  using attach_accepts_empty_process_id[of "sample_env S_OK S_OK S_OK" "''netcoredbg''"]
  by (simp add: sample_env_def)

subsection \<open>C7: the pre-seeded launch command\<close>

text \<open>
  C7. When the scan left an executable (\<open>execFile\<close> is not empty) and a variant is
  constructed, exactly one launch call is made on it, with \<open>execFile\<close> and \<open>execArgs\<close>, and
  it is made before the command loop: \<open>SetLaunchCommand\<close> on the MI and CLI variants,
  \<open>OverrideLaunchCommand\<close> on the VSCode variant. With the behaviour of these two methods
  as the spec describes it, a launch command of the client wins over the one set on MI
  and CLI and loses against the one installed on VSCode; when the client issues none,
  the pre-seeded one is used. Without an executable no launch call is made in any run.
\<close>

theorem launch_command_handed_over:
  "(execFile st = [] \<longrightarrow> filter is_launch_call (fst (session env st)) = []) \<and>
   (execFile st \<noteq> [] \<and> snd (select_variant st) = Inr () \<longrightarrow>
      filter is_launch_call (takeWhile (\<lambda>e. e \<noteq> CommandLoop) (fst (session env st))) =
        [if interpreterType st = InterpreterVSCode
         then OverrideLaunchCommand (execFile st) (execArgs st)
         else SetLaunchCommand (execFile st) (execArgs st)] \<and>
      filter is_launch_call (fst (session env st)) =
        [if interpreterType st = InterpreterVSCode
         then OverrideLaunchCommand (execFile st) (execArgs st)
         else SetLaunchCommand (execFile st) (execArgs st)] \<and>
      launch_in_effect (fst (session env st)) None = Some (execFile st, execArgs st) \<and>
      launch_in_effect (fst (session env st)) (Some c) =
        (if interpreterType st = InterpreterVSCode then Some (execFile st, execArgs st)
         else Some c))"
proof -
  have none: "filter is_launch_call (fst (session env st)) = []" if "execFile st = []"
    using that session_launch_calls[of env st] select_variant_launch_calls[of st] by simp
  have some: "filter is_launch_call (fst (session env st)) =
        [if interpreterType st = InterpreterVSCode
         then OverrideLaunchCommand (execFile st) (execArgs st)
         else SetLaunchCommand (execFile st) (execArgs st)]"
    if "execFile st \<noteq> [] \<and> snd (select_variant st) = Inr ()"
    using that session_launch_calls[of env st] select_variant_launch_calls[of st] by simp
  have before: "filter is_launch_call (takeWhile (\<lambda>e. e \<noteq> CommandLoop) (fst (session env st))) =
        [if interpreterType st = InterpreterVSCode
         then OverrideLaunchCommand (execFile st) (execArgs st)
         else SetLaunchCommand (execFile st) (execArgs st)]"
    if "execFile st \<noteq> [] \<and> snd (select_variant st) = Inr ()"
    using that before_CommandLoop[of env st] bootstrap_launch_calls[of env st]
      select_variant_launch_calls[of st]
    by simp
  have eff: "launch_in_effect (fst (session env st)) client =
        (case client of
           None \<Rightarrow> Some (execFile st, execArgs st)
         | Some c \<Rightarrow> if interpreterType st = InterpreterVSCode
                     then Some (execFile st, execArgs st) else Some c)"
    if "execFile st \<noteq> [] \<and> snd (select_variant st) = Inr ()" for client
    using launch_in_effect_filter[of "fst (session env st)" client] some[OF that]
    by (simp split: option.split)
  show ?thesis using none some before eff[of None] eff[of "Some c"] by simp
qed

theorem launch_command_handed_over_witness:
  "filter is_launch_call
     (fst (main (sample_env S_OK S_OK S_OK) [''netcoredbg'', ''--'', ''app.dll'', ''-v''])) =
     [SetLaunchCommand ''app.dll'' [''-v'']] \<and>
   launch_in_effect
     (fst (session (sample_env S_OK S_OK S_OK)
             (initial_locals\<lparr>execFile := ''app.dll'', execArgs := [''-v'']\<rparr>)))
     (Some (''other.dll'', [])) = Some (''other.dll'', []) \<and>
   launch_in_effect
     (fst (session (sample_env S_OK S_OK S_OK)
             (initial_locals\<lparr>interpreterType := InterpreterVSCode, execFile := ''app.dll'',
                               execArgs := [''-v'']\<rparr>)))
     (Some (''other.dll'', [])) = Some (''app.dll'', [''-v'']) \<and>
   filter is_launch_call (fst (session (sample_env S_OK S_OK S_OK) initial_locals)) = []"
proof -
  let ?env = "sample_env S_OK S_OK S_OK"
  let ?mi = "initial_locals\<lparr>execFile := ''app.dll'', execArgs := [''-v'']\<rparr>"
  let ?vs = "initial_locals\<lparr>interpreterType := InterpreterVSCode, execFile := ''app.dll'',
                               execArgs := [''-v'']\<rparr>"
  have p: "parse_args ?env ''netcoredbg'' initial_locals [''--'', ''app.dll'', ''-v''] = ([], Inr ?mi)"
    by (simp add: scan_separator initial_locals_def)
  have h1: "execFile ?mi \<noteq> [] \<and> snd (select_variant ?mi) = Inr ()"
    by (simp add: select_variant_result initial_locals_def)
  have h2: "execFile ?vs \<noteq> [] \<and> snd (select_variant ?vs) = Inr ()"
    by (simp add: select_variant_result initial_locals_def)
  have h3: "execFile initial_locals = []" by (simp add: initial_locals_def)
  show ?thesis
    using launch_command_handed_over[of ?mi ?env "(''other.dll'', [])"]
      launch_command_handed_over[of ?vs ?env "(''other.dll'', [])"]
      launch_command_handed_over[of initial_locals ?env "(''other.dll'', [])"]
      h1 h2 h3 main_parsed[OF p]
    by (simp add: initial_locals_def)
qed

subsection \<open>C8: captured output is tagged as standard output\<close>

text \<open>
  C8. In every mode but CLI the redirect server is constructed with two callbacks, and
  each of them, on a captured text, emits \<open>OutputEvent(OutputStdOut, text)\<close>: the callback
  for the debuggee's standard error uses the \<open>OutputStdOut\<close> tag as well. This holds for
  the redirect step and for the callbacks of every server constructed in a run.
\<close>

theorem captured_output_is_stdout:
  "map (\<lambda>cb. cb text) (concat (map callbacks_of (redirect_server st))) =
     (if interpreterType st \<noteq> InterpreterCLI
      then [EmitOutputEvent (OutputEvent OutputStdOut text),
            EmitOutputEvent (OutputEvent OutputStdOut text)]
      else []) \<and>
   map (\<lambda>cb. cb text) (concat (map callbacks_of (fst (session env st)))) =
     (if interpreterType st \<noteq> InterpreterCLI \<and> snd (select_variant st) = Inr ()
      then [EmitOutputEvent (OutputEvent OutputStdOut text),
            EmitOutputEvent (OutputEvent OutputStdOut text)]
      else [])"
proof -
  have a: "map (\<lambda>cb. cb text) (concat (map callbacks_of (redirect_server st))) =
     (if interpreterType st \<noteq> InterpreterCLI
      then [EmitOutputEvent (OutputEvent OutputStdOut text),
            EmitOutputEvent (OutputEvent OutputStdOut text)]
      else [])"
    by (simp add: redirect_server_def stdout_callback_def stderr_callback_def)
  have "concat (map callbacks_of (fst (session env st))) =
        concat (map callbacks_of (if snd (select_variant st) = Inr () then redirect_server st else []))"
    using callbacks_of_filter[of "fst (session env st)"] session_servers[of env st] by simp
  then show ?thesis
    by (simp add: redirect_server_def stdout_callback_def stderr_callback_def)
qed

theorem captured_output_is_stdout_witness:
  "map (\<lambda>cb. cb ''oops'')
     (concat (map callbacks_of
        (fst (session (sample_env S_OK S_OK S_OK)
                (initial_locals\<lparr>interpreterType := InterpreterVSCode\<rparr>))))) =
     [EmitOutputEvent (OutputEvent OutputStdOut ''oops''),
      EmitOutputEvent (OutputEvent OutputStdOut ''oops'')]"
proof -
  have "snd (select_variant (initial_locals\<lparr>interpreterType := InterpreterVSCode\<rparr>)) = Inr ()"
    by (simp add: select_variant_result initial_locals_def)
  then show ?thesis
    using captured_output_is_stdout[of "''oops''"
        "initial_locals\<lparr>interpreterType := InterpreterVSCode\<rparr>" "sample_env S_OK S_OK S_OK"]
    by (simp add: initial_locals_def)
qed

subsection \<open>C9: attaching to process id 0\<close>

text \<open>
  C9. The scan accepts \<open>--attach 0\<close> and sets \<open>pidDebuggee\<close> to 0, its initial value: a
  command line that begins with \<open>--attach 0\<close> runs exactly as the command line without
  it, and behind any prefix that the scan passes the scan goes on with \<open>pidDebuggee = 0\<close>. With \<open>pidDebuggee = 0\<close> the attach step does nothing, no run calls \<open>Initialize\<close>,
  \<open>Attach\<close> or \<open>ConfigurationDone\<close>, and a run that selected its variant goes from the
  redirect step straight to the command loop.
\<close>

theorem attach_zero_is_no_attach:
  "parse_args env prog st (''--attach'' # ''0'' # rest) =
     parse_args env prog (st\<lparr>pidDebuggee := 0\<rparr>) rest \<and>
   main env (prog # ''--attach'' # ''0'' # rest) = main env (prog # rest) \<and>
   (snd (parse_args env prog initial_locals pre) = Inr st \<and> ''--'' \<notin> set pre \<longrightarrow>
      parse_args env prog initial_locals (pre @ ''--attach'' # ''0'' # rest) =
        emit (fst (parse_args env prog initial_locals pre))
          (parse_args env prog (st\<lparr>pidDebuggee := 0\<rparr>) rest)) \<and>
   (pidDebuggee st = 0 \<longrightarrow>
      attach env st = ([], Inr ()) \<and>
      filter is_engine_call (fst (session env st)) = [] \<and>
      (snd (select_variant st) = Inr () \<longrightarrow>
         session env st =
           ([LOGI ''Start logging'' [], New_ManagedDebugger] @ fst (select_variant st)
              @ [SetProtocol] @ redirect_server st
              @ [LOGI ''pidDebugee %d'' [ArgWord 0], CommandLoop],
            if CommandLoop_returns env then Some EXIT_SUCCESS else None)))"
proof -
  have a: "parse_args env prog st (''--attach'' # ''0'' # rest) =
     parse_args env prog (st\<lparr>pidDebuggee := 0\<rparr>) rest" for st
    by (simp add: scan_attach_0 emit_def)
  have i: "initial_locals\<lparr>pidDebuggee := 0\<rparr> = initial_locals"
    by (simp add: initial_locals_def)
  have b: "main env (prog # ''--attach'' # ''0'' # rest) = main env (prog # rest)"
    using a[of initial_locals] i by (simp add: main_def)
  have c: "parse_args env prog initial_locals (pre @ ''--attach'' # ''0'' # rest) =
        emit (fst (parse_args env prog initial_locals pre))
          (parse_args env prog (st\<lparr>pidDebuggee := 0\<rparr>) rest)"
    if p: "snd (parse_args env prog initial_locals pre) = Inr st" and n: "''--'' \<notin> set pre"
    using parse_args_append[OF p n, of "''--attach'' # ''0'' # rest"] a[of st] by simp
  show ?thesis
    using a b c attach_zero[of st env] session_engine_calls_without_pid[of st env]
      session_without_pid[of st env]
    by simp
qed

theorem attach_zero_is_no_attach_witness:
  "main (sample_env S_OK S_OK S_OK) [''netcoredbg'', ''--attach'', ''0''] =
     main (sample_env S_OK S_OK S_OK) [''netcoredbg''] \<and>
   pidDebuggee initial_locals = 0 \<and>
   filter is_engine_call (fst (session (sample_env S_OK S_OK S_OK) initial_locals)) = [] \<and>
   session (sample_env S_OK S_OK S_OK) initial_locals =
     ([LOGI ''Start logging'' [], New_ManagedDebugger, LOGI ''InterpreterMI selected'' [],
       New_Protocol InterpreterMI, SetDebugger, LOGI ''SetDebugger for InterpreterMI'' [],
       SetProtocol, New_IORedirectServer 0 stdout_callback stderr_callback,
       LOGI ''pidDebugee %d'' [ArgWord 0], CommandLoop],
      Some EXIT_SUCCESS)"
proof -
  have pid: "pidDebuggee initial_locals = 0" by (simp add: initial_locals_def)
  have sel: "snd (select_variant initial_locals) = Inr ()"
    by (simp add: select_variant_result initial_locals_def)
  have tr: "fst (select_variant initial_locals) =
      [LOGI ''InterpreterMI selected'' [],
       New_Protocol InterpreterMI, SetDebugger, LOGI ''SetDebugger for InterpreterMI'' []]"
    by (simp add: select_variant_def emit_def initial_locals_def)
  have rs: "redirect_server initial_locals = [New_IORedirectServer 0 stdout_callback stderr_callback]"
    by (simp add: redirect_server_def initial_locals_def)
  show ?thesis
    using attach_zero_is_no_attach[of "sample_env S_OK S_OK S_OK" "''netcoredbg''" initial_locals
        "[]" "[]"]
      pid sel tr rs
    by (simp add: sample_env_def)
qed

subsection \<open>C10: the positional separator\<close>

text \<open>
  C10. When the scan meets \<open>--\<close>, in any state, the next argument becomes \<open>execFile\<close> and
  all arguments behind it become \<open>execArgs\<close>, in order and whatever they look like; none
  of them is scanned. When nothing follows \<open>--\<close>, the scan writes the missing-program
  error and \<open>main\<close> returns \<open>EXIT_FAILURE\<close>. For a whole command line: behind any prefix
  that the scan passes without returning and without meeting \<open>--\<close>.
\<close>

theorem separator_ends_options:
  "parse_args env prog st (''--'' # f # args) =
     ([], Inr (st\<lparr>execFile := f, execArgs := execArgs st @ args\<rparr>)) \<and>
   parse_args env prog st [''--''] =
     ([Fprintf Stderr ''Error: Missing program argument\<newline>'' []], Inl EXIT_FAILURE) \<and>
   (snd (parse_args env prog initial_locals pre) = Inr st \<and> ''--'' \<notin> set pre \<longrightarrow>
      parse_args env prog initial_locals (pre @ ''--'' # f # args) =
        (fst (parse_args env prog initial_locals pre),
         Inr (st\<lparr>execFile := f, execArgs := args\<rparr>)) \<and>
      main env (prog # pre @ [''--'']) =
        (fst (parse_args env prog initial_locals pre)
           @ [Fprintf Stderr ''Error: Missing program argument\<newline>'' []],
         Some EXIT_FAILURE))"
proof -
  have a: "parse_args env prog st (''--'' # f # args) =
     ([], Inr (st\<lparr>execFile := f, execArgs := execArgs st @ args\<rparr>))" for st
    by (simp add: scan_separator)
  have b: "parse_args env prog st [''--''] =
     ([Fprintf Stderr ''Error: Missing program argument\<newline>'' []], Inl EXIT_FAILURE)" for st
    by (simp add: scan_separator)
  have c: "parse_args env prog initial_locals (pre @ ''--'' # f # args) =
        (fst (parse_args env prog initial_locals pre),
         Inr (st\<lparr>execFile := f, execArgs := args\<rparr>)) \<and>
      main env (prog # pre @ [''--'']) =
        (fst (parse_args env prog initial_locals pre)
           @ [Fprintf Stderr ''Error: Missing program argument\<newline>'' []],
         Some EXIT_FAILURE)"
    if p: "snd (parse_args env prog initial_locals pre) = Inr st" and n: "''--'' \<notin> set pre"
  proof -
    have keep: "execArgs st = []"
      using parse_args_keeps_launch[OF p n] by (simp add: initial_locals_def)
    have 1: "parse_args env prog initial_locals (pre @ ''--'' # f # args) =
        (fst (parse_args env prog initial_locals pre),
         Inr (st\<lparr>execFile := f, execArgs := args\<rparr>))"
      using parse_args_append[OF p n, of "''--'' # f # args"] a[of st] keep
      by (simp add: emit_def)
    have "parse_args env prog initial_locals (pre @ [''--'']) =
        (fst (parse_args env prog initial_locals pre)
           @ [Fprintf Stderr ''Error: Missing program argument\<newline>'' []],
         Inl EXIT_FAILURE)"
      using parse_args_append[OF p n, of "[''--'']"] b[of st] by (simp add: emit_def)
    then have 2: "main env (prog # pre @ [''--'']) =
        (fst (parse_args env prog initial_locals pre)
           @ [Fprintf Stderr ''Error: Missing program argument\<newline>'' []],
         Some EXIT_FAILURE)"
      by (rule main_returned)
    show ?thesis using 1 2 by simp
  qed
  show ?thesis using a b c by blast
qed

theorem separator_ends_options_witness:
  "parse_args (sample_env S_OK S_OK S_OK) ''netcoredbg'' initial_locals
     [''--interpreter=cli'', ''--'', ''--help'', ''--attach'', ''--'', ''-x''] =
     ([], Inr (initial_locals\<lparr>interpreterType := InterpreterCLI, execFile := ''--help'',
                               execArgs := [''--attach'', ''--'', ''-x'']\<rparr>)) \<and>
   main (sample_env S_OK S_OK S_OK) [''netcoredbg'', ''--interpreter=cli'', ''--''] =
     ([Fprintf Stderr ''Error: Missing program argument\<newline>'' []], Some EXIT_FAILURE)"
proof -
  let ?st = "initial_locals\<lparr>interpreterType := InterpreterCLI\<rparr>"
  have p: "parse_args (sample_env S_OK S_OK S_OK) ''netcoredbg'' initial_locals
             [''--interpreter=cli''] = ([], Inr ?st)"
    by (simp add: scan_option_def emit_def)
  have n: "''--'' \<notin> set [''--interpreter=cli'']" by simp
  show ?thesis
    using separator_ends_options[of "sample_env S_OK S_OK S_OK" "''netcoredbg''" ?st
        "''--help''" "[''--attach'', ''--'', ''-x'']" "[''--interpreter=cli'']"] p n
    by simp
qed

end
